theory Spec2Isabelle
  imports Main
begin

section \<open>The webhook protocol handler of external-dns-glesys\<close>

text \<open>
  A shallow embedding of \<^verbatim>\<open>webhook/webhook.go\<close>: the media-type negotiator, the
  header check and the four handlers \<^verbatim>\<open>Records\<close>, \<^verbatim>\<open>ApplyChanges\<close>,
  \<^verbatim>\<open>AdjustEndpoints\<close> and \<^verbatim>\<open>Negotiate\<close>. The Go standard library
  (\<^verbatim>\<open>net/http\<close>, \<^verbatim>\<open>encoding/json\<close>, \<^verbatim>\<open>strings\<close>, \<^verbatim>\<open>fmt\<close>) and the
  external-dns types are not part of the repository: the response writer follows the
  documented contract of \<^verbatim>\<open>http.ResponseWriter\<close>, and the JSON coding of the opaque
  endpoint and domain-filter values is a parameter of the handlers.
\<close>

subsection \<open>Go values\<close>

text \<open>An \<^verbatim>\<open>error\<close> value is known to the handlers only through its message.\<close>

datatype go_error = Errorf string

fun Error :: "go_error \<Rightarrow> string" where
  "Error (Errorf m) = m"

text \<open>
  A Go slice is either \<^verbatim>\<open>nil\<close> or a (possibly empty) sequence; \<^verbatim>\<open>encoding/json\<close>
  tells the two apart.
\<close>

datatype 'a slice = NilSlice | Slice "'a list"

fun len :: "'a slice \<Rightarrow> nat" where
  "len NilSlice = 0"
| "len (Slice xs) = length xs"

text \<open>\<^verbatim>\<open>plan.Changes\<close>: four sequences of endpoints.\<close>

record 'e changes =
  Create :: "'e slice"
  UpdateOld :: "'e slice"
  UpdateNew :: "'e slice"
  Delete :: "'e slice"

subsection \<open>Constants of the package\<close>

definition mediaTypeFormat :: string where
  "mediaTypeFormat = ''application/external.dns.webhook+json;''"

definition contentTypeHeader :: string where
  "contentTypeHeader = ''Content-Type''"

definition contentTypePlaintext :: string where
  "contentTypePlaintext = ''text/plain''"

definition acceptHeader :: string where
  "acceptHeader = ''Accept''"

definition varyHeader :: string where
  "varyHeader = ''Vary''"

definition supportedMediaVersions :: string where
  "supportedMediaVersions = ''1''"

abbreviation StatusOK :: nat where "StatusOK \<equiv> 200"
abbreviation StatusNoContent :: nat where "StatusNoContent \<equiv> 204"
abbreviation StatusNotModified :: nat where "StatusNotModified \<equiv> 304"
abbreviation StatusBadRequest :: nat where "StatusBadRequest \<equiv> 400"
abbreviation StatusNotAcceptable :: nat where "StatusNotAcceptable \<equiv> 406"
abbreviation StatusUnsupportedMediaType :: nat where "StatusUnsupportedMediaType \<equiv> 415"
abbreviation StatusInternalServerError :: nat where "StatusInternalServerError \<equiv> 500"

subsection \<open>Media-type negotiation\<close>

definition mediaTypeVersion :: "string \<Rightarrow> string" where
  "mediaTypeVersion v = mediaTypeFormat @ ''version='' @ v"

definition mediaTypeVersion1 :: string where
  "mediaTypeVersion1 = mediaTypeVersion ''1''"

definition Is :: "string \<Rightarrow> string \<Rightarrow> bool" where
  "Is m headerValue = (m = headerValue)"

text \<open>
  \<^verbatim>\<open>strings.Split(s, sep)\<close> for a separator of one byte, the only use in the package
  (\<^verbatim>\<open>","\<close>): the pieces between the separators, one piece when there is none.
\<close>

fun strings_Split :: "string \<Rightarrow> char \<Rightarrow> string list" where
  "strings_Split [] sep = [[]]"
| "strings_Split (c # cs) sep =
     (if c = sep then [] # strings_Split cs sep
      else (case strings_Split cs sep of
              [] \<Rightarrow> [[c]]
            | piece # pieces \<Rightarrow> (c # piece) # pieces))"

text \<open>The first loop of \<^verbatim>\<open>checkAndGetMediaTypeHeaderValue\<close>: the first version that matches.\<close>

fun firstMatch :: "string list \<Rightarrow> string \<Rightarrow> string option" where
  "firstMatch [] val = None"
| "firstMatch (v # vs) val =
     (if Is (mediaTypeVersion v) val then Some v else firstMatch vs val)"

text \<open>
  The second loop: the supported media types, each followed by the separator the source
  chooses by comparing the index with the length of the version \<^emph>\<open>string\<close>.
\<close>

fun supportedMediaTypesString :: "nat \<Rightarrow> string list \<Rightarrow> string" where
  "supportedMediaTypesString i [] = []"
| "supportedMediaTypesString i (v # vs) =
     (mediaTypeVersion v
        @ (if int i < int (length supportedMediaVersions) - 1 then '', '' else []))
      @ supportedMediaTypesString (Suc i) vs"

definition checkAndGetMediaTypeHeaderValue :: "string \<Rightarrow> go_error + string" where
  "checkAndGetMediaTypeHeaderValue val =
     (case firstMatch (strings_Split supportedMediaVersions CHR '','') val of
        Some v \<Rightarrow> Inr v
      | None \<Rightarrow>
          Inl (Errorf (''unsupported media type version: '' @ [CHR 0x27] @ val @ [CHR 0x27]
                 @ ''. Supported media types are: '' @ [CHR 0x27]
                 @ supportedMediaTypesString 0 (strings_Split supportedMediaVersions CHR '','')
                 @ [CHR 0x27])))"

subsection \<open>The response writer\<close>

text \<open>
  \<^verbatim>\<open>http.ResponseWriter\<close>: the header map the handler edits, and what has been sent.
  \<^verbatim>\<open>WriteHeader\<close> sends the status with the header map as it is at that moment; a
  later change of the map does not reach the client, and a second \<^verbatim>\<open>WriteHeader\<close>
  is ignored. \<^verbatim>\<open>Write\<close> sends status 200 first when no status was sent, writes nothing
  for empty data, and refuses a body for the statuses that allow none.
\<close>

record response_writer =
  handlerHeader :: "string \<rightharpoonup> string"
  wroteHeader :: bool
  status :: nat
  sentHeader :: "string \<rightharpoonup> string"
  written :: string

definition newResponseWriter :: response_writer where
  "newResponseWriter =
     \<lparr>handlerHeader = Map.empty, wroteHeader = False, status = 0,
      sentHeader = Map.empty, written = []\<rparr>"

definition Header_Set :: "string \<Rightarrow> string \<Rightarrow> response_writer \<Rightarrow> response_writer" where
  "Header_Set k v w = w\<lparr>handlerHeader := (handlerHeader w)(k \<mapsto> v)\<rparr>"

definition WriteHeader :: "nat \<Rightarrow> response_writer \<Rightarrow> response_writer" where
  "WriteHeader code w =
     (if wroteHeader w then w
      else w\<lparr>wroteHeader := True, status := code, sentHeader := handlerHeader w\<rparr>)"

definition bodyAllowedForStatus :: "nat \<Rightarrow> bool" where
  "bodyAllowedForStatus code =
     (if 100 \<le> code \<and> code \<le> 199 then False
      else if code = StatusNoContent then False
      else if code = StatusNotModified then False
      else True)"

definition ErrBodyNotAllowed :: go_error where
  "ErrBodyNotAllowed = Errorf ''http: request method or response status code does not allow body''"

definition Write :: "string \<Rightarrow> response_writer \<Rightarrow> go_error option \<times> response_writer" where
  "Write data w =
     (let w1 = (if wroteHeader w then w else WriteHeader StatusOK w)
      in if length data = 0 then (None, w1)
         else if bodyAllowedForStatus (status w1) then (None, w1\<lparr>written := written w1 @ data\<rparr>)
         else (Some ErrBodyNotAllowed, w1))"

text \<open>\<^verbatim>\<open>fmt.Fprint(w, s)\<close> formats the string and hands it to \<^verbatim>\<open>Write\<close> once.\<close>

definition Fprint :: "string \<Rightarrow> response_writer \<Rightarrow> go_error option \<times> response_writer" where
  "Fprint s w = Write s w"

subsection \<open>JSON coding\<close>

text \<open>
  \<^verbatim>\<open>json.Marshal\<close> of a slice: \<^verbatim>\<open>null\<close> for the nil slice, otherwise the elements
  between brackets, separated by commas; the first element that fails makes the whole
  call fail. How one element is written is a parameter.
\<close>

fun marshalElements :: "('e \<Rightarrow> go_error + string) \<Rightarrow> 'e list \<Rightarrow> go_error + string list" where
  "marshalElements enc [] = Inr []"
| "marshalElements enc (x # xs) =
     (case enc x of
        Inl err \<Rightarrow> Inl err
      | Inr b \<Rightarrow> (case marshalElements enc xs of
                    Inl err \<Rightarrow> Inl err
                  | Inr bs \<Rightarrow> Inr (b # bs)))"

fun joinComma :: "string list \<Rightarrow> string" where
  "joinComma [] = []"
| "joinComma [b] = b"
| "joinComma (b # bs) = b @ '','' @ joinComma bs"

definition json_Marshal :: "('e \<Rightarrow> go_error + string) \<Rightarrow> 'e slice \<Rightarrow> go_error + string" where
  "json_Marshal enc s =
     (case s of
        NilSlice \<Rightarrow> Inr ''null''
      | Slice xs \<Rightarrow> (case marshalElements enc xs of
                      Inl err \<Rightarrow> Inl err
                    | Inr bs \<Rightarrow> Inr (''['' @ joinComma bs @ '']'')))"

text \<open>
  \<^verbatim>\<open>json.NewEncoder(w).Encode(v)\<close>: the JSON text of the value followed by a newline,
  written at once; nothing is written when the value cannot be marshalled.
\<close>

definition Encode :: "('v \<Rightarrow> go_error + string) \<Rightarrow> 'v \<Rightarrow> response_writer
                        \<Rightarrow> go_error option \<times> response_writer" where
  "Encode marshal v w =
     (case marshal v of
        Inl err \<Rightarrow> (Some err, w)
      | Inr b \<Rightarrow> Write (b @ [CHR 0x0A]) w)"

text \<open>
  The coding of the types of external-dns: how an endpoint and a domain filter are
  marshalled, and how a request body is decoded into endpoints or into changes.
\<close>

record ('e, 'f) json_codec =
  marshalEndpoint :: "'e \<Rightarrow> go_error + string"
  marshalDomainFilter :: "'f \<Rightarrow> go_error + string"
  decodeEndpoints :: "string \<Rightarrow> go_error + 'e slice"
  decodeChanges :: "string \<Rightarrow> go_error + 'e changes"

subsection \<open>Request, provider and the state of one exchange\<close>

text \<open>\<^verbatim>\<open>r.Header.Get(key)\<close> is the first value stored under the key, or the empty string.\<close>

record request =
  Header :: "string \<rightharpoonup> string list"
  Body :: string

definition Header_Get :: "(string \<rightharpoonup> string list) \<Rightarrow> string \<Rightarrow> string" where
  "Header_Get h key = (case h key of None \<Rightarrow> [] | Some [] \<Rightarrow> [] | Some (v # vs) \<Rightarrow> v)"

text \<open>\<^verbatim>\<open>provider.Provider\<close>: what each method returns when it is called.\<close>

record ('e, 'f) provider =
  Provider_Records :: "'e slice \<times> go_error option"
  Provider_ApplyChanges :: "'e changes \<Rightarrow> go_error option"
  Provider_AdjustEndpoints :: "'e slice \<Rightarrow> 'e slice \<times> go_error option"
  Provider_GetDomainFilter :: 'f

datatype 'e provider_call =
    CallRecords
  | CallApplyChanges "'e changes"
  | CallAdjustEndpoints "'e slice"
  | CallGetDomainFilter

text \<open>
  One exchange: the response writer, the provider methods called so far, and whether
  \<^verbatim>\<open>Fatalf\<close> was reached (it ends the process).
\<close>

record 'e exchange =
  writer :: response_writer
  invoked :: "'e provider_call list"
  fatal :: bool

definition newExchange :: "'e exchange" where
  "newExchange = \<lparr>writer = newResponseWriter, invoked = [], fatal = False\<rparr>"

definition fatalOnError :: "go_error option \<Rightarrow> 'e exchange \<Rightarrow> 'e exchange" where
  "fatalOnError writeErr s = (case writeErr of None \<Rightarrow> s | Some err \<Rightarrow> s\<lparr>fatal := True\<rparr>)"

subsection \<open>The header check\<close>

definition headerCheck :: "bool \<Rightarrow> request \<Rightarrow> 'e exchange \<Rightarrow> go_error option \<times> 'e exchange" where
  "headerCheck isContentType r s =
     (let header = (if isContentType then Header_Get (Header r) contentTypeHeader
                    else Header_Get (Header r) acceptHeader)
      in if length header = 0 then
           (let w1 = Header_Set contentTypeHeader contentTypePlaintext (writer s);
                w2 = WriteHeader StatusNotAcceptable w1;
                msg = ''client must provide ''
                        @ (if isContentType then ''a content type'' else ''an accept header'');
                err = Errorf msg;
                (writeErr, w3) = Fprint (Error err) w2
            in (Some err, fatalOnError writeErr (s\<lparr>writer := w3\<rparr>)))
         else
           (case checkAndGetMediaTypeHeaderValue header of
              Inl cause \<Rightarrow>
                (let w1 = Header_Set contentTypeHeader contentTypePlaintext (writer s);
                     w2 = WriteHeader StatusUnsupportedMediaType w1;
                     msg = ''client must provide a valid versioned media type in the ''
                             @ (if isContentType then ''content type'' else ''accept header'');
                     err = Errorf (msg @ '': '' @ Error cause);
                     (writeErr, w3) = Fprint (Error err) w2
                 in (Some err, fatalOnError writeErr (s\<lparr>writer := w3\<rparr>)))
            | Inr v \<Rightarrow> (None, s)))"

definition contentTypeHeaderCheck :: "request \<Rightarrow> 'e exchange \<Rightarrow> go_error option \<times> 'e exchange" where
  "contentTypeHeaderCheck r s = headerCheck True r s"

definition acceptHeaderCheck :: "request \<Rightarrow> 'e exchange \<Rightarrow> go_error option \<times> 'e exchange" where
  "acceptHeaderCheck r s = headerCheck False r s"

subsection \<open>The four handlers\<close>

definition Records :: "('e, 'f) json_codec \<Rightarrow> ('e, 'f) provider \<Rightarrow> request
                         \<Rightarrow> 'e exchange \<Rightarrow> 'e exchange" where
  "Records c p r s =
     (case acceptHeaderCheck r s of
        (Some err, s1) \<Rightarrow> s1
      | (None, s1) \<Rightarrow>
          (let s2 = s1\<lparr>invoked := invoked s1 @ [CallRecords]\<rparr>
           in case Provider_Records p of
                (records, Some err) \<Rightarrow>
                  s2\<lparr>writer := WriteHeader StatusInternalServerError (writer s2)\<rparr>
              | (records, None) \<Rightarrow>
                  (let w1 = Header_Set contentTypeHeader mediaTypeVersion1 (writer s2);
                       w2 = Header_Set varyHeader contentTypeHeader w1
                   in case Encode (json_Marshal (marshalEndpoint c)) records w2 of
                        (Some err, w3) \<Rightarrow>
                          s2\<lparr>writer := WriteHeader StatusInternalServerError w3\<rparr>
                      | (None, w3) \<Rightarrow> s2\<lparr>writer := w3\<rparr>)))"

definition ApplyChanges :: "('e, 'f) json_codec \<Rightarrow> ('e, 'f) provider \<Rightarrow> request
                              \<Rightarrow> 'e exchange \<Rightarrow> 'e exchange" where
  "ApplyChanges c p r s =
     (case contentTypeHeaderCheck r s of
        (Some err, s1) \<Rightarrow> s1
      | (None, s1) \<Rightarrow>
          (case decodeChanges c (Body r) of
             Inl err \<Rightarrow>
               (let w1 = Header_Set contentTypeHeader contentTypePlaintext (writer s1);
                    w2 = WriteHeader StatusBadRequest w1;
                    errMsg = ''error decoding changes: '' @ Error err;
                    (writeError, w3) = Fprint errMsg w2
                in fatalOnError writeError (s1\<lparr>writer := w3\<rparr>))
           | Inr changes \<Rightarrow>
               (let s2 = s1\<lparr>invoked := invoked s1 @ [CallApplyChanges changes]\<rparr>
                in case Provider_ApplyChanges p changes of
                     Some err \<Rightarrow>
                       (let w1 = Header_Set contentTypeHeader contentTypePlaintext (writer s2)
                        in s2\<lparr>writer := WriteHeader StatusInternalServerError w1\<rparr>)
                   | None \<Rightarrow> s2\<lparr>writer := WriteHeader StatusNoContent (writer s2)\<rparr>)))"

definition AdjustEndpoints :: "('e, 'f) json_codec \<Rightarrow> ('e, 'f) provider \<Rightarrow> request
                                 \<Rightarrow> 'e exchange \<Rightarrow> 'e exchange" where
  "AdjustEndpoints c p r s =
     (case contentTypeHeaderCheck r s of
        (Some err, s1) \<Rightarrow> s1
      | (None, s1) \<Rightarrow>
          (case acceptHeaderCheck r s1 of
             (Some err, s2) \<Rightarrow> s2
           | (None, s2) \<Rightarrow>
               (case decodeEndpoints c (Body r) of
                  Inl err \<Rightarrow>
                    (let w1 = Header_Set contentTypeHeader contentTypePlaintext (writer s2);
                         w2 = WriteHeader StatusBadRequest w1;
                         errMessage = ''failed to decode request body: '' @ Error err;
                         (writeError, w3) = Fprint errMessage w2
                     in fatalOnError writeError (s2\<lparr>writer := w3\<rparr>))
                | Inr pve \<Rightarrow>
                    (let s3 = s2\<lparr>invoked := invoked s2 @ [CallAdjustEndpoints pve]\<rparr>;
                         (pve1, err) = Provider_AdjustEndpoints p pve;
                         w1 = (case err of
                                 Some e \<Rightarrow>
                                   WriteHeader StatusInternalServerError
                                     (Header_Set contentTypeHeader contentTypePlaintext (writer s3))
                               | None \<Rightarrow> writer s3);
                         out = (case json_Marshal (marshalEndpoint c) pve1 of
                                  Inl e \<Rightarrow> []
                                | Inr b \<Rightarrow> b);
                         w2 = Header_Set contentTypeHeader mediaTypeVersion1 w1;
                         w3 = Header_Set varyHeader contentTypeHeader w2;
                         (writeError, w4) = Fprint out w3
                     in fatalOnError writeError (s3\<lparr>writer := w4\<rparr>)))))"

definition Negotiate :: "('e, 'f) json_codec \<Rightarrow> ('e, 'f) provider \<Rightarrow> request
                           \<Rightarrow> 'e exchange \<Rightarrow> 'e exchange" where
  "Negotiate c p r s =
     (case acceptHeaderCheck r s of
        (Some err, s1) \<Rightarrow> s1
      | (None, s1) \<Rightarrow>
          (let s2 = s1\<lparr>invoked := invoked s1 @ [CallGetDomainFilter]\<rparr>
           in case marshalDomainFilter c (Provider_GetDomainFilter p) of
                Inl err \<Rightarrow> s2\<lparr>writer := WriteHeader StatusInternalServerError (writer s2)\<rparr>
              | Inr b \<Rightarrow>
                  (let w1 = Header_Set contentTypeHeader mediaTypeVersion1 (writer s2);
                       (writeError, w2) = Write b w1
                   in case writeError of
                        Some e \<Rightarrow> s2\<lparr>writer := WriteHeader StatusInternalServerError w2\<rparr>
                      | None \<Rightarrow> s2\<lparr>writer := w2\<rparr>)))"

subsection \<open>Observations and sample values\<close>

text \<open>
  A refusal as the client sees it: the status, \<^verbatim>\<open>Content-Type: text/plain\<close> as the only
  header sent, the message as the body, and no provider method called.
\<close>

definition refused :: "'e exchange \<Rightarrow> nat \<Rightarrow> string \<Rightarrow> bool" where
  "refused s code msg =
     (wroteHeader (writer s) \<and> status (writer s) = code
      \<and> sentHeader (writer s) = [contentTypeHeader \<mapsto> contentTypePlaintext]
      \<and> written (writer s) = msg \<and> invoked s = [])"

text \<open>Concrete requests, codings and providers for the instances below.\<close>

definition sampleRequest :: "string list \<Rightarrow> string list \<Rightarrow> string \<Rightarrow> request" where
  "sampleRequest ct ac b =
     \<lparr>Header = [contentTypeHeader \<mapsto> ct, acceptHeader \<mapsto> ac], Body = b\<rparr>"

definition sampleMarshal :: "bool \<Rightarrow> go_error + string" where
  "sampleMarshal b = Inr (if b then ''true'' else ''false'')"

definition sampleCodec :: "(bool, bool) json_codec" where
  "sampleCodec =
     \<lparr>marshalEndpoint = sampleMarshal,
      marshalDomainFilter = sampleMarshal,
      decodeEndpoints = (\<lambda>b. if b = ''[true,false]'' then Inr (Slice [True, False])
                             else if b = ''[]'' then Inr (Slice [])
                             else Inl (Errorf ''unexpected end of JSON input'')),
      decodeChanges = (\<lambda>b. if b = ''{}''
                           then Inr \<lparr>Create = NilSlice, UpdateOld = NilSlice,
                                     UpdateNew = NilSlice, Delete = NilSlice\<rparr>
                           else Inl (Errorf ''unexpected end of JSON input''))\<rparr>"


definition sampleProvider :: "bool slice \<Rightarrow> go_error option \<Rightarrow> (bool, bool) provider" where
  "sampleProvider recs err =
     \<lparr>Provider_Records = (recs, err),
      Provider_ApplyChanges = (\<lambda>changes. err),
      Provider_AdjustEndpoints = (\<lambda>pve. (pve, err)),
      Provider_GetDomainFilter = True\<rparr>"





section \<open>Properties\<close>

subsection \<open>Media-type negotiation\<close>

lemma strings_Split_supported: "strings_Split supportedMediaVersions CHR '','' = [''1'']"
  by (simp add: supportedMediaVersions_def)

lemma mediaTypeVersion_inject: "mediaTypeVersion a = mediaTypeVersion b \<longleftrightarrow> a = b"
  by (simp add: mediaTypeVersion_def)

lemma firstMatch_member: "v \<in> set vs \<Longrightarrow> firstMatch vs (mediaTypeVersion v) = Some v"
  by (induction vs) (auto simp: Is_def mediaTypeVersion_inject)

lemma firstMatch_none:
  "(\<forall>v \<in> set vs. val \<noteq> mediaTypeVersion v) \<Longrightarrow> firstMatch vs val = None"
  by (induction vs) (auto simp: Is_def)

lemma firstMatch_Some:
  "firstMatch vs val = Some v \<Longrightarrow> v \<in> set vs \<and> val = mediaTypeVersion v"
  by (induction vs) (auto simp: Is_def split: if_splits)

text \<open>
  C1. For every supported version \<open>v\<close>, the media type built from \<open>v\<close> is accepted
  and \<open>v\<close> is returned. Every string that is not equal to the media type of a supported
  version is refused, with an error whose message quotes the string and lists the
  supported media types (the one of version 1). Only equality counts: no prefix and no
  wildcard is accepted.
\<close>

theorem checkAndGetMediaTypeHeaderValue_exact:
  "(v \<in> set (strings_Split supportedMediaVersions CHR '','') \<longrightarrow>
      checkAndGetMediaTypeHeaderValue (mediaTypeVersion v) = Inr v)
   \<and> ((\<forall>u \<in> set (strings_Split supportedMediaVersions CHR '',''). val \<noteq> mediaTypeVersion u) \<longrightarrow>
      checkAndGetMediaTypeHeaderValue val =
        Inl (Errorf (''unsupported media type version: '' @ [CHR 0x27] @ val @ [CHR 0x27]
               @ ''. Supported media types are: '' @ [CHR 0x27]
               @ ''application/external.dns.webhook+json;version=1'' @ [CHR 0x27])))"
proof (intro conjI impI)
  assume "v \<in> set (strings_Split supportedMediaVersions CHR '','')"
  then show "checkAndGetMediaTypeHeaderValue (mediaTypeVersion v) = Inr v"
    by (simp add: checkAndGetMediaTypeHeaderValue_def firstMatch_member)
next
  assume "\<forall>u \<in> set (strings_Split supportedMediaVersions CHR '',''). val \<noteq> mediaTypeVersion u"
  then have "firstMatch (strings_Split supportedMediaVersions CHR '','') val = None"
    by (rule firstMatch_none)
  then show "checkAndGetMediaTypeHeaderValue val =
        Inl (Errorf (''unsupported media type version: '' @ [CHR 0x27] @ val @ [CHR 0x27]
               @ ''. Supported media types are: '' @ [CHR 0x27]
               @ ''application/external.dns.webhook+json;version=1'' @ [CHR 0x27]))"
    by (simp add: checkAndGetMediaTypeHeaderValue_def strings_Split_supported
        supportedMediaVersions_def mediaTypeVersion_def mediaTypeFormat_def)
qed

theorem checkAndGetMediaTypeHeaderValue_exact_witness:
  "checkAndGetMediaTypeHeaderValue ''application/external.dns.webhook+json;version=1'' = Inr ''1''
   \<and> checkAndGetMediaTypeHeaderValue ''application/external.dns.webhook+json;version=1 '' =
       Inl (Errorf (''unsupported media type version: '' @ [CHR 0x27]
              @ ''application/external.dns.webhook+json;version=1 '' @ [CHR 0x27]
              @ ''. Supported media types are: '' @ [CHR 0x27]
              @ ''application/external.dns.webhook+json;version=1'' @ [CHR 0x27]))"
  using checkAndGetMediaTypeHeaderValue_exact
          [of "''1''" "''application/external.dns.webhook+json;version=1 ''"]
  by (simp add: strings_Split_supported mediaTypeVersion_def mediaTypeFormat_def)

subsection \<open>The header check\<close>

lemma checkAndGet_Inr_nonempty: "checkAndGetMediaTypeHeaderValue h = Inr v \<Longrightarrow> h \<noteq> []"
  by (auto simp: checkAndGetMediaTypeHeaderValue_def mediaTypeVersion_def mediaTypeFormat_def
      split: option.splits dest!: firstMatch_Some)

lemma headerCheck_pass:
  "checkAndGetMediaTypeHeaderValue
     (Header_Get (Header r) (if b then contentTypeHeader else acceptHeader)) = Inr v
   \<Longrightarrow> headerCheck b r s = (None, s)"
  by (frule checkAndGet_Inr_nonempty) (simp add: headerCheck_def split: if_splits)

lemma headerCheck_missing:
  "Header_Get (Header r) (if b then contentTypeHeader else acceptHeader) = []
   \<Longrightarrow> headerCheck b r newExchange =
       (Some (Errorf (''client must provide ''
                        @ (if b then ''a content type'' else ''an accept header''))),
        newExchange\<lparr>writer :=
          \<lparr>handlerHeader = [contentTypeHeader \<mapsto> contentTypePlaintext], wroteHeader = True,
           status = StatusNotAcceptable,
           sentHeader = [contentTypeHeader \<mapsto> contentTypePlaintext],
           written = ''client must provide ''
                        @ (if b then ''a content type'' else ''an accept header'')\<rparr>\<rparr>)"
  by (simp add: headerCheck_def newExchange_def newResponseWriter_def Header_Set_def
      WriteHeader_def Fprint_def Write_def bodyAllowedForStatus_def fatalOnError_def
      split: if_splits)

lemma headerCheck_unsupported:
  "Header_Get (Header r) (if b then contentTypeHeader else acceptHeader) \<noteq> [] \<Longrightarrow>
   checkAndGetMediaTypeHeaderValue
     (Header_Get (Header r) (if b then contentTypeHeader else acceptHeader)) = Inl e
   \<Longrightarrow> headerCheck b r newExchange =
       (Some (Errorf (''client must provide a valid versioned media type in the ''
                        @ (if b then ''content type'' else ''accept header'')
                        @ '': '' @ Error e)),
        newExchange\<lparr>writer :=
          \<lparr>handlerHeader = [contentTypeHeader \<mapsto> contentTypePlaintext], wroteHeader = True,
           status = StatusUnsupportedMediaType,
           sentHeader = [contentTypeHeader \<mapsto> contentTypePlaintext],
           written = ''client must provide a valid versioned media type in the ''
                        @ (if b then ''content type'' else ''accept header'')
                        @ '': '' @ Error e\<rparr>\<rparr>)"
  by (simp add: headerCheck_def newExchange_def newResponseWriter_def Header_Set_def
      WriteHeader_def Fprint_def Write_def bodyAllowedForStatus_def fatalOnError_def
      split: if_splits)

lemmas headerCheck_missing_ct = headerCheck_missing [where b = True, simplified]
lemmas headerCheck_missing_ac = headerCheck_missing [where b = False, simplified]
lemmas headerCheck_unsupported_ct = headerCheck_unsupported [where b = True, simplified]
lemmas headerCheck_unsupported_ac = headerCheck_unsupported [where b = False, simplified]
lemmas headerCheck_pass_ct = headerCheck_pass [where b = True, simplified]
lemmas headerCheck_pass_ac = headerCheck_pass [where b = False, simplified]


lemma newExchange_fields [simp]:
  "writer newExchange = newResponseWriter" "invoked newExchange = []" "fatal newExchange = False"
  by (simp_all add: newExchange_def)

lemmas writer_defs = newResponseWriter_def Header_Set_def WriteHeader_def Fprint_def Write_def
  bodyAllowedForStatus_def fatalOnError_def Encode_def

lemma check_v1: "checkAndGetMediaTypeHeaderValue mediaTypeVersion1 = Inr ''1''"
  by (simp add: checkAndGetMediaTypeHeaderValue_def strings_Split_supported Is_def mediaTypeVersion1_def)

lemma check_json:
  "checkAndGetMediaTypeHeaderValue ''application/json'' =
     Inl (Errorf (''unsupported media type version: '' @ [CHR 0x27] @ ''application/json''
            @ [CHR 0x27] @ ''. Supported media types are: '' @ [CHR 0x27]
            @ ''application/external.dns.webhook+json;version=1'' @ [CHR 0x27]))"
  by (simp add: checkAndGetMediaTypeHeaderValue_def strings_Split_supported Is_def
      mediaTypeVersion_def mediaTypeFormat_def supportedMediaVersions_def)

text \<open>
  C2. In each of the four operations a failing header check ends the exchange: a header
  that is absent or empty gives 406 with \<^verbatim>\<open>Content-Type: text/plain\<close> and a message
  naming the header, a header that is present but not a supported media type gives 415
  with \<^verbatim>\<open>Content-Type: text/plain\<close> and a message that embeds the negotiation error,
  and in both cases no provider method is called. \<^verbatim>\<open>Records\<close> and \<^verbatim>\<open>Negotiate\<close>
  check \<^verbatim>\<open>Accept\<close>, \<^verbatim>\<open>ApplyChanges\<close> checks \<^verbatim>\<open>Content-Type\<close>, and
  \<^verbatim>\<open>AdjustEndpoints\<close> checks \<^verbatim>\<open>Content-Type\<close> and then, once that has passed,
  \<^verbatim>\<open>Accept\<close>.
\<close>

theorem header_gate:
  "(Header_Get (Header r) acceptHeader = [] \<longrightarrow>
      refused (Records c p r newExchange) StatusNotAcceptable
        ''client must provide an accept header'')
   \<and> (Header_Get (Header r) acceptHeader \<noteq> []
        \<and> checkAndGetMediaTypeHeaderValue (Header_Get (Header r) acceptHeader) = Inl ea \<longrightarrow>
      refused (Records c p r newExchange) StatusUnsupportedMediaType
        (''client must provide a valid versioned media type in the accept header: '' @ Error ea))
   \<and> (Header_Get (Header r) contentTypeHeader = [] \<longrightarrow>
      refused (ApplyChanges c p r newExchange) StatusNotAcceptable
        ''client must provide a content type'')
   \<and> (Header_Get (Header r) contentTypeHeader \<noteq> []
        \<and> checkAndGetMediaTypeHeaderValue (Header_Get (Header r) contentTypeHeader) = Inl ec \<longrightarrow>
      refused (ApplyChanges c p r newExchange) StatusUnsupportedMediaType
        (''client must provide a valid versioned media type in the content type: '' @ Error ec))
   \<and> (Header_Get (Header r) contentTypeHeader = [] \<longrightarrow>
      refused (AdjustEndpoints c p r newExchange) StatusNotAcceptable
        ''client must provide a content type'')
   \<and> (Header_Get (Header r) contentTypeHeader \<noteq> []
        \<and> checkAndGetMediaTypeHeaderValue (Header_Get (Header r) contentTypeHeader) = Inl ec \<longrightarrow>
      refused (AdjustEndpoints c p r newExchange) StatusUnsupportedMediaType
        (''client must provide a valid versioned media type in the content type: '' @ Error ec))
   \<and> (checkAndGetMediaTypeHeaderValue (Header_Get (Header r) contentTypeHeader) = Inr v
        \<and> Header_Get (Header r) acceptHeader = [] \<longrightarrow>
      refused (AdjustEndpoints c p r newExchange) StatusNotAcceptable
        ''client must provide an accept header'')
   \<and> (checkAndGetMediaTypeHeaderValue (Header_Get (Header r) contentTypeHeader) = Inr v
        \<and> Header_Get (Header r) acceptHeader \<noteq> []
        \<and> checkAndGetMediaTypeHeaderValue (Header_Get (Header r) acceptHeader) = Inl ea \<longrightarrow>
      refused (AdjustEndpoints c p r newExchange) StatusUnsupportedMediaType
        (''client must provide a valid versioned media type in the accept header: '' @ Error ea))
   \<and> (Header_Get (Header r) acceptHeader = [] \<longrightarrow>
      refused (Negotiate c p r newExchange) StatusNotAcceptable
        ''client must provide an accept header'')
   \<and> (Header_Get (Header r) acceptHeader \<noteq> []
        \<and> checkAndGetMediaTypeHeaderValue (Header_Get (Header r) acceptHeader) = Inl ea \<longrightarrow>
      refused (Negotiate c p r newExchange) StatusUnsupportedMediaType
        (''client must provide a valid versioned media type in the accept header: '' @ Error ea))"
proof (intro conjI impI; (elim conjE)?)
  show "refused (Records c p r newExchange) StatusNotAcceptable
        ''client must provide an accept header''"
    if "Header_Get (Header r) acceptHeader = []"
    using that
    by (simp add: Records_def acceptHeaderCheck_def headerCheck_missing_ac refused_def)
  show "refused (Records c p r newExchange) StatusUnsupportedMediaType
        (''client must provide a valid versioned media type in the accept header: '' @ Error ea)"
    if "Header_Get (Header r) acceptHeader \<noteq> []"
      "checkAndGetMediaTypeHeaderValue (Header_Get (Header r) acceptHeader) = Inl ea"
    using that
    by (simp add: Records_def acceptHeaderCheck_def headerCheck_unsupported_ac refused_def)
  show "refused (ApplyChanges c p r newExchange) StatusNotAcceptable
        ''client must provide a content type''"
    if "Header_Get (Header r) contentTypeHeader = []"
    using that
    by (simp add: ApplyChanges_def contentTypeHeaderCheck_def headerCheck_missing_ct refused_def)
  show "refused (ApplyChanges c p r newExchange) StatusUnsupportedMediaType
        (''client must provide a valid versioned media type in the content type: '' @ Error ec)"
    if "Header_Get (Header r) contentTypeHeader \<noteq> []"
      "checkAndGetMediaTypeHeaderValue (Header_Get (Header r) contentTypeHeader) = Inl ec"
    using that
    by (simp add: ApplyChanges_def contentTypeHeaderCheck_def headerCheck_unsupported_ct refused_def)
  show "refused (AdjustEndpoints c p r newExchange) StatusNotAcceptable
        ''client must provide a content type''"
    if "Header_Get (Header r) contentTypeHeader = []"
    using that
    by (simp add: AdjustEndpoints_def contentTypeHeaderCheck_def headerCheck_missing_ct refused_def)
  show "refused (AdjustEndpoints c p r newExchange) StatusUnsupportedMediaType
        (''client must provide a valid versioned media type in the content type: '' @ Error ec)"
    if "Header_Get (Header r) contentTypeHeader \<noteq> []"
      "checkAndGetMediaTypeHeaderValue (Header_Get (Header r) contentTypeHeader) = Inl ec"
    using that
    by (simp add: AdjustEndpoints_def contentTypeHeaderCheck_def headerCheck_unsupported_ct
        refused_def)
  show "refused (AdjustEndpoints c p r newExchange) StatusNotAcceptable
        ''client must provide an accept header''"
    if "checkAndGetMediaTypeHeaderValue (Header_Get (Header r) contentTypeHeader) = Inr v"
      "Header_Get (Header r) acceptHeader = []"
    using that
    by (simp add: AdjustEndpoints_def contentTypeHeaderCheck_def acceptHeaderCheck_def
        headerCheck_pass_ct headerCheck_missing_ac refused_def)
  show "refused (AdjustEndpoints c p r newExchange) StatusUnsupportedMediaType
        (''client must provide a valid versioned media type in the accept header: '' @ Error ea)"
    if "checkAndGetMediaTypeHeaderValue (Header_Get (Header r) contentTypeHeader) = Inr v"
      "Header_Get (Header r) acceptHeader \<noteq> []"
      "checkAndGetMediaTypeHeaderValue (Header_Get (Header r) acceptHeader) = Inl ea"
    using that
    by (simp add: AdjustEndpoints_def contentTypeHeaderCheck_def acceptHeaderCheck_def
        headerCheck_pass_ct headerCheck_unsupported_ac refused_def)
  show "refused (Negotiate c p r newExchange) StatusNotAcceptable
        ''client must provide an accept header''"
    if "Header_Get (Header r) acceptHeader = []"
    using that
    by (simp add: Negotiate_def acceptHeaderCheck_def headerCheck_missing_ac refused_def)
  show "refused (Negotiate c p r newExchange) StatusUnsupportedMediaType
        (''client must provide a valid versioned media type in the accept header: '' @ Error ea)"
    if "Header_Get (Header r) acceptHeader \<noteq> []"
      "checkAndGetMediaTypeHeaderValue (Header_Get (Header r) acceptHeader) = Inl ea"
    using that
    by (simp add: Negotiate_def acceptHeaderCheck_def headerCheck_unsupported_ac refused_def)
qed


theorem header_gate_witness:
  "refused (Records sampleCodec (sampleProvider NilSlice None) (sampleRequest [] [] []) newExchange)
     StatusNotAcceptable ''client must provide an accept header''
   \<and> refused (ApplyChanges sampleCodec (sampleProvider NilSlice None)
                (sampleRequest [] [] []) newExchange)
       StatusNotAcceptable ''client must provide a content type''
   \<and> refused (AdjustEndpoints sampleCodec (sampleProvider NilSlice None)
                (sampleRequest [] [] []) newExchange)
       StatusNotAcceptable ''client must provide a content type''
   \<and> refused (Negotiate sampleCodec (sampleProvider NilSlice None)
                (sampleRequest [] [] []) newExchange)
       StatusNotAcceptable ''client must provide an accept header''
   \<and> refused (AdjustEndpoints sampleCodec (sampleProvider NilSlice None)
                (sampleRequest [mediaTypeVersion1] [] []) newExchange)
       StatusNotAcceptable ''client must provide an accept header''
   \<and> refused (Records sampleCodec (sampleProvider NilSlice None)
                (sampleRequest [''application/json''] [''application/json''] []) newExchange)
       StatusUnsupportedMediaType
       (''client must provide a valid versioned media type in the accept header: ''
          @ ''unsupported media type version: '' @ [CHR 0x27] @ ''application/json''
          @ [CHR 0x27] @ ''. Supported media types are: '' @ [CHR 0x27]
          @ ''application/external.dns.webhook+json;version=1'' @ [CHR 0x27])
   \<and> refused (ApplyChanges sampleCodec (sampleProvider NilSlice None)
                (sampleRequest [''application/json''] [''application/json''] []) newExchange)
       StatusUnsupportedMediaType
       (''client must provide a valid versioned media type in the content type: ''
          @ ''unsupported media type version: '' @ [CHR 0x27] @ ''application/json''
          @ [CHR 0x27] @ ''. Supported media types are: '' @ [CHR 0x27]
          @ ''application/external.dns.webhook+json;version=1'' @ [CHR 0x27])
   \<and> refused (AdjustEndpoints sampleCodec (sampleProvider NilSlice None)
                (sampleRequest [''application/json''] [''application/json''] []) newExchange)
       StatusUnsupportedMediaType
       (''client must provide a valid versioned media type in the content type: ''
          @ ''unsupported media type version: '' @ [CHR 0x27] @ ''application/json''
          @ [CHR 0x27] @ ''. Supported media types are: '' @ [CHR 0x27]
          @ ''application/external.dns.webhook+json;version=1'' @ [CHR 0x27])
   \<and> refused (Negotiate sampleCodec (sampleProvider NilSlice None)
                (sampleRequest [''application/json''] [''application/json''] []) newExchange)
       StatusUnsupportedMediaType
       (''client must provide a valid versioned media type in the accept header: ''
          @ ''unsupported media type version: '' @ [CHR 0x27] @ ''application/json''
          @ [CHR 0x27] @ ''. Supported media types are: '' @ [CHR 0x27]
          @ ''application/external.dns.webhook+json;version=1'' @ [CHR 0x27])
   \<and> refused (AdjustEndpoints sampleCodec (sampleProvider NilSlice None)
                (sampleRequest [mediaTypeVersion1] [''application/json''] []) newExchange)
       StatusUnsupportedMediaType
       (''client must provide a valid versioned media type in the accept header: ''
          @ ''unsupported media type version: '' @ [CHR 0x27] @ ''application/json''
          @ [CHR 0x27] @ ''. Supported media types are: '' @ [CHR 0x27]
          @ ''application/external.dns.webhook+json;version=1'' @ [CHR 0x27])"
  using
    header_gate [of "sampleRequest [] [] []" sampleCodec "sampleProvider NilSlice None"]
    header_gate [of "sampleRequest [mediaTypeVersion1] [] []" sampleCodec
                    "sampleProvider NilSlice None" _ _ "''1''"]
    header_gate [of "sampleRequest [''application/json''] [''application/json''] []"
                    sampleCodec "sampleProvider NilSlice None"
                    "Errorf (''unsupported media type version: '' @ [CHR 0x27]
                       @ ''application/json'' @ [CHR 0x27]
                       @ ''. Supported media types are: '' @ [CHR 0x27]
                       @ ''application/external.dns.webhook+json;version=1'' @ [CHR 0x27])"
                    "Errorf (''unsupported media type version: '' @ [CHR 0x27]
                       @ ''application/json'' @ [CHR 0x27]
                       @ ''. Supported media types are: '' @ [CHR 0x27]
                       @ ''application/external.dns.webhook+json;version=1'' @ [CHR 0x27])"]
    header_gate [of "sampleRequest [mediaTypeVersion1] [''application/json''] []"
                    sampleCodec "sampleProvider NilSlice None"
                    "Errorf (''unsupported media type version: '' @ [CHR 0x27]
                       @ ''application/json'' @ [CHR 0x27]
                       @ ''. Supported media types are: '' @ [CHR 0x27]
                       @ ''application/external.dns.webhook+json;version=1'' @ [CHR 0x27])"
                    _ "''1''"]
  by (simp add: sampleRequest_def Header_Get_def contentTypeHeader_def acceptHeader_def
      check_v1 check_json)


subsection \<open>The handlers\<close>

lemmas handler_defs = Let_def contentTypeHeaderCheck_def acceptHeaderCheck_def headerCheck_pass_ct
  headerCheck_pass_ac

text \<open>
  C3. In \<^verbatim>\<open>ApplyChanges\<close>, once the content-type check has passed and the body has
  been decoded, the provider is called with the decoded changes. When it returns an error
  the response is 500 with \<^verbatim>\<open>Content-Type: text/plain\<close> and an empty body; when it
  succeeds the response is 204 with no header and no body.
\<close>

theorem ApplyChanges_provider_outcome:
  assumes "checkAndGetMediaTypeHeaderValue (Header_Get (Header r) contentTypeHeader) = Inr v"
    and "decodeChanges c (Body r) = Inr changes"
  shows "(Provider_ApplyChanges p changes = Some err \<longrightarrow>
           status (writer (ApplyChanges c p r newExchange)) = StatusInternalServerError
           \<and> sentHeader (writer (ApplyChanges c p r newExchange))
                = [contentTypeHeader \<mapsto> contentTypePlaintext]
           \<and> written (writer (ApplyChanges c p r newExchange)) = []
           \<and> invoked (ApplyChanges c p r newExchange) = [CallApplyChanges changes])
       \<and> (Provider_ApplyChanges p changes = None \<longrightarrow>
           status (writer (ApplyChanges c p r newExchange)) = StatusNoContent
           \<and> sentHeader (writer (ApplyChanges c p r newExchange)) = Map.empty
           \<and> written (writer (ApplyChanges c p r newExchange)) = []
           \<and> invoked (ApplyChanges c p r newExchange) = [CallApplyChanges changes])"
  using assms by (simp add: ApplyChanges_def handler_defs writer_defs)

theorem ApplyChanges_provider_outcome_witness:
  "status (writer (ApplyChanges sampleCodec (sampleProvider NilSlice (Some (Errorf ''api down'')))
             (sampleRequest [mediaTypeVersion1] [] ''{}'') newExchange))
     = StatusInternalServerError
   \<and> written (writer (ApplyChanges sampleCodec (sampleProvider NilSlice (Some (Errorf ''api down'')))
             (sampleRequest [mediaTypeVersion1] [] ''{}'') newExchange)) = []
   \<and> status (writer (ApplyChanges sampleCodec (sampleProvider NilSlice None)
             (sampleRequest [mediaTypeVersion1] [] ''{}'') newExchange))
     = StatusNoContent
   \<and> written (writer (ApplyChanges sampleCodec (sampleProvider NilSlice None)
             (sampleRequest [mediaTypeVersion1] [] ''{}'') newExchange)) = []"
  using
    ApplyChanges_provider_outcome [of "sampleRequest [mediaTypeVersion1] [] ''{}''" "''1''"
      sampleCodec "\<lparr>Create = NilSlice, UpdateOld = NilSlice, UpdateNew = NilSlice, Delete = NilSlice\<rparr>"
      "sampleProvider NilSlice (Some (Errorf ''api down''))" "Errorf ''api down''"]
    ApplyChanges_provider_outcome [of "sampleRequest [mediaTypeVersion1] [] ''{}''" "''1''"
      sampleCodec "\<lparr>Create = NilSlice, UpdateOld = NilSlice, UpdateNew = NilSlice, Delete = NilSlice\<rparr>"
      "sampleProvider NilSlice None"]
  by (simp add: sampleRequest_def Header_Get_def contentTypeHeader_def acceptHeader_def
      check_v1 sampleCodec_def sampleProvider_def)

text \<open>
  C4. In \<^verbatim>\<open>ApplyChanges\<close> and in \<^verbatim>\<open>AdjustEndpoints\<close>, when the header checks have
  passed and the request body cannot be decoded, the response is 400 with
  \<^verbatim>\<open>Content-Type: text/plain\<close>, the body is the handler's message followed by the
  decode error, and the provider is not called.
\<close>

theorem decode_failure_bad_request:
  "(checkAndGetMediaTypeHeaderValue (Header_Get (Header r) contentTypeHeader) = Inr v
      \<and> decodeChanges c (Body r) = Inl err \<longrightarrow>
    refused (ApplyChanges c p r newExchange) StatusBadRequest
      (''error decoding changes: '' @ Error err))
   \<and> (checkAndGetMediaTypeHeaderValue (Header_Get (Header r) contentTypeHeader) = Inr v
      \<and> checkAndGetMediaTypeHeaderValue (Header_Get (Header r) acceptHeader) = Inr v'
      \<and> decodeEndpoints c (Body r) = Inl err' \<longrightarrow>
    refused (AdjustEndpoints c p r newExchange) StatusBadRequest
      (''failed to decode request body: '' @ Error err'))"
  by (simp add: ApplyChanges_def AdjustEndpoints_def handler_defs writer_defs refused_def)

theorem decode_failure_bad_request_witness:
  "refused (ApplyChanges sampleCodec (sampleProvider NilSlice None)
             (sampleRequest [mediaTypeVersion1] [mediaTypeVersion1] ''{'') newExchange)
     StatusBadRequest ''error decoding changes: unexpected end of JSON input''
   \<and> refused (AdjustEndpoints sampleCodec (sampleProvider NilSlice None)
             (sampleRequest [mediaTypeVersion1] [mediaTypeVersion1] ''{'') newExchange)
     StatusBadRequest ''failed to decode request body: unexpected end of JSON input''"
  using decode_failure_bad_request
    [of "sampleRequest [mediaTypeVersion1] [mediaTypeVersion1] ''{''" "''1''" sampleCodec
        "Errorf ''unexpected end of JSON input''" "sampleProvider NilSlice None" "''1''"
        "Errorf ''unexpected end of JSON input''"]
  by (simp add: sampleRequest_def Header_Get_def contentTypeHeader_def acceptHeader_def
      check_v1 sampleCodec_def)

text \<open>
  C5. In \<^verbatim>\<open>AdjustEndpoints\<close>, when the provider returns an error together with a
  sequence of endpoints, the response has status 500 and its body is the JSON text of
  that sequence.
\<close>

theorem AdjustEndpoints_provider_error_body:
  assumes "checkAndGetMediaTypeHeaderValue (Header_Get (Header r) contentTypeHeader) = Inr v"
    and "checkAndGetMediaTypeHeaderValue (Header_Get (Header r) acceptHeader) = Inr v'"
    and "decodeEndpoints c (Body r) = Inr pve"
    and "Provider_AdjustEndpoints p pve = (pve1, Some err)"
    and "json_Marshal (marshalEndpoint c) pve1 = Inr out"
  shows "status (writer (AdjustEndpoints c p r newExchange)) = StatusInternalServerError
       \<and> written (writer (AdjustEndpoints c p r newExchange)) = out
       \<and> invoked (AdjustEndpoints c p r newExchange) = [CallAdjustEndpoints pve]"
  using assms by (simp add: AdjustEndpoints_def handler_defs writer_defs)

theorem AdjustEndpoints_provider_error_body_witness:
  "status (writer (AdjustEndpoints sampleCodec (sampleProvider NilSlice (Some (Errorf ''api down'')))
             (sampleRequest [mediaTypeVersion1] [mediaTypeVersion1] ''[true,false]'') newExchange))
     = StatusInternalServerError
   \<and> written (writer (AdjustEndpoints sampleCodec (sampleProvider NilSlice (Some (Errorf ''api down'')))
             (sampleRequest [mediaTypeVersion1] [mediaTypeVersion1] ''[true,false]'') newExchange))
     = ''[true,false]''"
  using AdjustEndpoints_provider_error_body
    [of "sampleRequest [mediaTypeVersion1] [mediaTypeVersion1] ''[true,false]''" "''1''" "''1''"
        sampleCodec "Slice [True, False]" "sampleProvider NilSlice (Some (Errorf ''api down''))"
        "Slice [True, False]" "Errorf ''api down''" "''[true,false]''"]
  by (simp add: sampleRequest_def Header_Get_def contentTypeHeader_def acceptHeader_def
      check_v1 sampleCodec_def sampleProvider_def sampleMarshal_def json_Marshal_def)

text \<open>
  C6, as stated, fails: with a valid \<^verbatim>\<open>Accept\<close> header and a provider that returns
  no record and no error, the body of \<^verbatim>\<open>Records\<close> is not the two bytes \<^verbatim>\<open>[]\<close>,
  neither for the empty slice nor for the nil slice.
\<close>

theorem Records_no_records_counterexample:
  "Provider_Records (sampleProvider (Slice []) None) = (Slice [], None)
   \<and> written (writer (Records sampleCodec (sampleProvider (Slice []) None)
                (sampleRequest [] [mediaTypeVersion1] []) newExchange)) \<noteq> ''[]''
   \<and> Provider_Records (sampleProvider NilSlice None) = (NilSlice, None)
   \<and> written (writer (Records sampleCodec (sampleProvider NilSlice None)
                (sampleRequest [] [mediaTypeVersion1] []) newExchange)) \<noteq> ''[]''"
  by (simp add: Records_def handler_defs writer_defs sampleRequest_def Header_Get_def
      contentTypeHeader_def acceptHeader_def check_v1 sampleCodec_def sampleProvider_def
      json_Marshal_def)

text \<open>
  C6, amended. With a valid \<^verbatim>\<open>Accept\<close> header and a provider that returns no record
  and no error, \<^verbatim>\<open>Records\<close> answers 200 with \<^verbatim>\<open>Content-Type\<close> set to the media type
  of version 1 and \<^verbatim>\<open>Vary: Content-Type\<close>; the body is what the JSON encoder writes:
  \<^verbatim>\<open>[]\<close> and a newline for an empty slice, \<^verbatim>\<open>null\<close> and a newline for the nil
  slice.
\<close>

theorem Records_no_records:
  assumes "checkAndGetMediaTypeHeaderValue (Header_Get (Header r) acceptHeader) = Inr v"
    and "Provider_Records p = (records, None)"
    and "len records = 0"
  shows "status (writer (Records c p r newExchange)) = StatusOK
       \<and> sentHeader (writer (Records c p r newExchange))
            = [contentTypeHeader \<mapsto> mediaTypeVersion1, varyHeader \<mapsto> contentTypeHeader]
       \<and> written (writer (Records c p r newExchange))
            = (case records of NilSlice \<Rightarrow> ''null'' | Slice xs \<Rightarrow> ''[]'') @ [CHR 0x0A]
       \<and> invoked (Records c p r newExchange) = [CallRecords]"
  using assms
  by (cases records) (simp_all add: Records_def handler_defs writer_defs json_Marshal_def)

theorem Records_no_records_witness:
  "written (writer (Records sampleCodec (sampleProvider (Slice []) None)
             (sampleRequest [] [mediaTypeVersion1] []) newExchange)) = ''[]'' @ [CHR 0x0A]
   \<and> written (writer (Records sampleCodec (sampleProvider NilSlice None)
             (sampleRequest [] [mediaTypeVersion1] []) newExchange)) = ''null'' @ [CHR 0x0A]
   \<and> status (writer (Records sampleCodec (sampleProvider NilSlice None)
             (sampleRequest [] [mediaTypeVersion1] []) newExchange)) = StatusOK"
  using
    Records_no_records [of "sampleRequest [] [mediaTypeVersion1] []" "''1''"
      "sampleProvider (Slice []) None" "Slice []" sampleCodec]
    Records_no_records [of "sampleRequest [] [mediaTypeVersion1] []" "''1''"
      "sampleProvider NilSlice None" NilSlice sampleCodec]
  by (simp add: sampleRequest_def Header_Get_def contentTypeHeader_def acceptHeader_def
      check_v1 sampleProvider_def)




text \<open>
  C8. In \<^verbatim>\<open>Negotiate\<close> with a valid \<^verbatim>\<open>Accept\<close> header, the body is exactly the JSON
  text of the provider's domain filter, the status is 200, \<^verbatim>\<open>Content-Type\<close> is the
  media type of version 1, and no \<^verbatim>\<open>Vary\<close> header is set or sent.
\<close>

theorem Negotiate_domain_filter:
  assumes "checkAndGetMediaTypeHeaderValue (Header_Get (Header r) acceptHeader) = Inr v"
    and "marshalDomainFilter c (Provider_GetDomainFilter p) = Inr b"
  shows "status (writer (Negotiate c p r newExchange)) = StatusOK
       \<and> written (writer (Negotiate c p r newExchange)) = b
       \<and> sentHeader (writer (Negotiate c p r newExchange))
            = [contentTypeHeader \<mapsto> mediaTypeVersion1]
       \<and> sentHeader (writer (Negotiate c p r newExchange)) varyHeader = None
       \<and> handlerHeader (writer (Negotiate c p r newExchange)) varyHeader = None
       \<and> invoked (Negotiate c p r newExchange) = [CallGetDomainFilter]"
  using assms
  by (simp add: Negotiate_def handler_defs writer_defs contentTypeHeader_def varyHeader_def)

theorem Negotiate_domain_filter_witness:
  "status (writer (Negotiate sampleCodec (sampleProvider NilSlice None)
             (sampleRequest [] [mediaTypeVersion1] []) newExchange)) = StatusOK
   \<and> written (writer (Negotiate sampleCodec (sampleProvider NilSlice None)
             (sampleRequest [] [mediaTypeVersion1] []) newExchange)) = ''true''
   \<and> sentHeader (writer (Negotiate sampleCodec (sampleProvider NilSlice None)
             (sampleRequest [] [mediaTypeVersion1] []) newExchange)) ''Vary'' = None"
  using Negotiate_domain_filter
    [of "sampleRequest [] [mediaTypeVersion1] []" "''1''" sampleCodec
        "sampleProvider NilSlice None" "''true''"]
  by (simp add: sampleRequest_def Header_Get_def contentTypeHeader_def acceptHeader_def
      check_v1 sampleCodec_def sampleProvider_def sampleMarshal_def varyHeader_def)






text \<open>
  C10. In \<^verbatim>\<open>AdjustEndpoints\<close>, when the provider returns an error, the status 500
  is sent with the header map as it is at that moment, \<^verbatim>\<open>Content-Type: text/plain\<close>
  alone. The later assignments of the versioned media type and of \<^verbatim>\<open>Vary\<close> change
  the handler's header map only: the client receives the JSON body under
  \<^verbatim>\<open>Content-Type: text/plain\<close> and no \<^verbatim>\<open>Vary\<close> header.
\<close>

theorem AdjustEndpoints_provider_error_headers:
  assumes "checkAndGetMediaTypeHeaderValue (Header_Get (Header r) contentTypeHeader) = Inr v"
    and "checkAndGetMediaTypeHeaderValue (Header_Get (Header r) acceptHeader) = Inr v'"
    and "decodeEndpoints c (Body r) = Inr pve"
    and "Provider_AdjustEndpoints p pve = (pve1, Some err)"
    and "json_Marshal (marshalEndpoint c) pve1 = Inr out"
  shows "status (writer (AdjustEndpoints c p r newExchange)) = StatusInternalServerError
       \<and> sentHeader (writer (AdjustEndpoints c p r newExchange))
            = [contentTypeHeader \<mapsto> contentTypePlaintext]
       \<and> sentHeader (writer (AdjustEndpoints c p r newExchange)) varyHeader = None
       \<and> handlerHeader (writer (AdjustEndpoints c p r newExchange))
            = [contentTypeHeader \<mapsto> mediaTypeVersion1, varyHeader \<mapsto> contentTypeHeader]
       \<and> written (writer (AdjustEndpoints c p r newExchange)) = out"
  using assms
  by (simp add: AdjustEndpoints_def handler_defs writer_defs contentTypeHeader_def varyHeader_def)

theorem AdjustEndpoints_provider_error_headers_witness:
  "sentHeader (writer (AdjustEndpoints sampleCodec (sampleProvider NilSlice (Some (Errorf ''api down'')))
             (sampleRequest [mediaTypeVersion1] [mediaTypeVersion1] ''[true,false]'') newExchange))
     = [''Content-Type'' \<mapsto> ''text/plain'']
   \<and> written (writer (AdjustEndpoints sampleCodec (sampleProvider NilSlice (Some (Errorf ''api down'')))
             (sampleRequest [mediaTypeVersion1] [mediaTypeVersion1] ''[true,false]'') newExchange))
     = ''[true,false]''"
  using AdjustEndpoints_provider_error_headers
    [of "sampleRequest [mediaTypeVersion1] [mediaTypeVersion1] ''[true,false]''" "''1''" "''1''"
        sampleCodec "Slice [True, False]" "sampleProvider NilSlice (Some (Errorf ''api down''))"
        "Slice [True, False]" "Errorf ''api down''" "''[true,false]''"]
  by (simp add: sampleRequest_def Header_Get_def contentTypeHeader_def acceptHeader_def
      check_v1 sampleCodec_def sampleProvider_def sampleMarshal_def json_Marshal_def
      contentTypePlaintext_def)

end
